theory Spec2Isabelle
  imports Main "HOL-Library.Word" "HOL-Library.Monad_Syntax"
begin

unbundle bit_operations_syntax

section \<open>backport-include/linux/mm.h\<close>

text \<open>
  \<^verbatim>\<open>vm_flags_t\<close> is the kernel's \<^verbatim>\<open>unsigned long\<close> (64 bits on the platforms the driver
  builds for). The masks \<^verbatim>\<open>VM_SHARED\<close> and \<^verbatim>\<open>VM_MAYWRITE\<close> come from the kernel's own
  \<^verbatim>\<open>linux/mm.h\<close>, which the backport header only includes; they are parameters here.
\<close>

type_synonym vm_flags_t = "64 word"

definition is_cow_mapping :: "vm_flags_t \<Rightarrow> vm_flags_t \<Rightarrow> vm_flags_t \<Rightarrow> bool" where
  "is_cow_mapping VM_SHARED VM_MAYWRITE flags \<longleftrightarrow>
     (flags AND (VM_SHARED OR VM_MAYWRITE)) = VM_MAYWRITE"

section \<open>The mock GEM device: data\<close>

text \<open>A non-null pointer handed out by a collaborator; \<open>None\<close> is \<^verbatim>\<open>NULL\<close>.\<close>

type_synonym handle = nat

datatype cpumask = Cpu_all_mask

datatype gtt_page_size = I915_GTT_PAGE_SIZE_4K | I915_GTT_PAGE_SIZE_64K | I915_GTT_PAGE_SIZE_2M

datatype region = REGION_SMEM

datatype iov_mode = I915_IOV_MODE_NONE

text \<open>
  Calls that initialise something in place, cannot fail and have no counterpart on any
  release path of the file.
\<close>

datatype init_call =
    Device_initialize
  | Dev_set_name
  | Dma_coerce_mask_and_coherent
  | Pr_err int
  | Pci_set_drvdata
  | Dev_pm_domain_set
  | Pm_runtime_enable
  | Pm_runtime_dont_use_autosuspend
  | Pm_runtime_get_sync
  | Intel_runtime_pm_init_early
  | Intel_root_gt_init_early
  | Spin_lock_init
  | Init_waitqueue_head
  | I915_gem_init_mm
  | Mock_init_contexts
  | Intel_engines_driver_register
  | Ida_init

text \<open>
  One constructor per collaborator the file calls. A call is logged when it returns, with
  the arguments that matter and, for a call that can fail, the value it returned.
\<close>

datatype call =
    Init init_call
  | Kzalloc_pdev bool
  | Devres_open_group bool
  | Devm_drm_dev_alloc "int option"
  | Pm_runtime_enabled bool
  | I915_params_copy
  | Drm_mode_config_init
  | Mock_uncore_init int
  | Intel_memory_regions_hw_probe
  | Alloc_workqueue "handle option"
  | I915_sched_engine_create_cpu nat "handle option" cpumask "handle option"
  | Drmm_kzalloc "handle option"
  | Mock_init_ggtt
  | I915_vm_get
  | Mock_engine "handle option"
  | Mock_engine_init "handle option" int
  | I915_debugger_init
  | I915_debugger_fini
  | Mock_engine_flush handle
  | Intel_gt_retire_requests_timeout bool
  | Intel_gt_driver_remove
  | I915_gem_drain_workqueue
  | I915_gem_drain_freed_objects
  | Mock_fini_ggtt "handle option"
  | I915_sched_engine_put "handle option"
  | Intel_gt_driver_late_release_all
  | Intel_memory_regions_driver_release
  | Destroy_workqueue "handle option"
  | Drm_mode_config_cleanup
  | Mock_uncore_uninit
  | I915_params_free
  | Drm_dev_put
  | Devres_release_group
  | Kfree_pdev
  | Put_device

text \<open>
  The fields of \<^verbatim>\<open>struct drm_i915_private\<close> (with its embedded root \<^verbatim>\<open>gt0\<close>) that the file
  writes. Pointers are \<open>handle option\<close>; the engine table is indexed by engine id.
\<close>

record drm_i915_private =
  mode :: "iov_mode option"
  params_held :: bool
  info_graphics_ver :: "8 word"
  runtime_graphics_ver :: "8 word"
  page_sizes :: "gtt_page_size set"
  cachelevel_to_pat :: "nat list"
  memory_regions :: "region set"
  gt_mock :: bool
  gt_wakeref_count :: int
  gt_probed :: bool
  gt_name :: string
  wq :: "handle option"
  sched :: "handle option"
  mm_sched :: "handle option"
  mm_wq :: "handle option"
  gt_ggtt :: "handle option"
  gt_vm :: "handle option"
  platform_engine_mask :: nat
  gt_engine_mask :: nat
  gt_engine :: "nat \<Rightarrow> handle option"
  gt_wedged :: bool
  do_release :: bool

text \<open>
  What the collaborators answer: the script of a test double. \<open>retire_ret k\<close> is what the
  \<open>k\<close>-th call of \<^verbatim>\<open>intel_gt_retire_requests_timeout\<close> returns. The two array bounds are
  constants of headers outside the file.
\<close>

record env =
  kzalloc_ret :: bool
  devres_open_group_ret :: bool
  devm_drm_dev_alloc_err :: "int option"
  pm_runtime_enabled_ret :: bool
  mock_uncore_init_ret :: int
  alloc_workqueue_ret :: "handle option"
  sched_engine_create_ret :: "handle option"
  drmm_kzalloc_ret :: "handle option"
  mock_engine_ret :: "handle option"
  mock_engine_init_ret :: int
  retire_ret :: "nat \<Rightarrow> bool"
  I915_MAX_CACHE_LEVEL :: nat
  I915_NUM_ENGINES :: nat

text \<open>
  The machine state the file acts on: the device structure, the reference count of the
  fake PCI device, whether the DRM device is registered in the devres group, how often
  retirement has been asked, and the log of collaborator calls.
\<close>

record world =
  i915 :: drm_i915_private
  pdev_kref :: nat
  drm_dev_live :: bool
  retire_calls :: nat
  trace :: "call list"

definition RCS0 :: nat where
  "RCS0 = 0"

text \<open>\<^verbatim>\<open>devm_drm_dev_alloc\<close> hands out zeroed memory.\<close>

definition zeroed :: "env \<Rightarrow> drm_i915_private" where
  "zeroed e =
     \<lparr> mode = None, params_held = False, info_graphics_ver = 0, runtime_graphics_ver = 0,
       page_sizes = {}, cachelevel_to_pat = replicate (I915_MAX_CACHE_LEVEL e) 0,
       memory_regions = {}, gt_mock = False, gt_wakeref_count = 0, gt_probed = False,
       gt_name = [], wq = None, sched = None, mm_sched = None, mm_wq = None,
       gt_ggtt = None, gt_vm = None, platform_engine_mask = 0, gt_engine_mask = 0,
       gt_engine = (\<lambda>_. None), gt_wedged = False, do_release = False \<rparr>"

definition world0 :: "env \<Rightarrow> world" where
  "world0 e = \<lparr> i915 = zeroed e, pdev_kref = 0, drm_dev_live = False, retire_calls = 0,
                trace = [] \<rparr>"

definition call :: "call \<Rightarrow> world \<Rightarrow> world" where
  "call c w = w\<lparr>trace := trace w @ [c]\<rparr>"

definition init :: "init_call \<Rightarrow> world \<Rightarrow> world" where
  "init c w = call (Init c) w"

definition upd :: "(drm_i915_private \<Rightarrow> drm_i915_private) \<Rightarrow> world \<Rightarrow> world" where
  "upd f w = w\<lparr>i915 := f (i915 w)\<rparr>"

section \<open>Teardown\<close>

text \<open>\<^verbatim>\<open>for_each_engine\<close>: the non-null slots of the engine table, by ascending id.\<close>

definition for_each_engine :: "env \<Rightarrow> drm_i915_private \<Rightarrow> handle list" where
  "for_each_engine e d = List.map_filter (gt_engine d) [0 ..< I915_NUM_ENGINES e]"

definition flush_engines :: "env \<Rightarrow> world \<Rightarrow> world" where
  "flush_engines e w = fold (\<lambda>h. call (Mock_engine_flush h)) (for_each_engine e (i915 w)) w"

text \<open>
  \<^verbatim>\<open>do { for_each_engine(...) mock_engine_flush(engine); }
     while (!intel_gt_retire_requests_timeout(gt, &timeout));\<close>
  The loop ends when retirement returns true, and not before; \<open>None\<close> is the run in which
  it never does. The \<^verbatim>\<open>timeout\<close> variable is only handed to the collaborator.
\<close>

partial_function (option) mock_device_flush :: "env \<Rightarrow> world \<Rightarrow> world option" where
  "mock_device_flush e w =
     (let w1 = flush_engines e w;
          r = retire_ret e (retire_calls w1);
          w2 = call (Intel_gt_retire_requests_timeout r)
                 (w1\<lparr>retire_calls := Suc (retire_calls w1)\<rparr>)
      in if \<not> r then mock_device_flush e w2 else Some w2)"

definition i915_params_free :: "world \<Rightarrow> world" where
  "i915_params_free w = call I915_params_free (upd (\<lambda>d. d\<lparr>params_held := False\<rparr>) w)"

definition mock_device_release :: "env \<Rightarrow> world \<Rightarrow> world option" where
  "mock_device_release e w =
     (if \<not> do_release (i915 w) then Some (i915_params_free w)
      else do {
        w \<leftarrow> mock_device_flush e (call I915_debugger_fini w);
        let w = call Intel_gt_driver_remove w;
        let w = call I915_gem_drain_workqueue w;
        let w = call I915_gem_drain_freed_objects w;
        let w = call (Mock_fini_ggtt (gt_ggtt (i915 w))) w;
        let w = call (I915_sched_engine_put (sched (i915 w))) w;
        let w = call Intel_gt_driver_late_release_all w;
        let w = call Intel_memory_regions_driver_release w;
        let w = call (Destroy_workqueue (wq (i915 w))) w;
        let w = call Drm_mode_config_cleanup w;
        let w = call Mock_uncore_uninit w;
        Some (i915_params_free w)
      })"

definition release_dev :: "world \<Rightarrow> world" where
  "release_dev w = call Kfree_pdev w"

text \<open>
  Modelled from the spec: \<^verbatim>\<open>put_device\<close> is the driver core's. It drops one reference
  of the identity and, at zero references, invokes the identity's release callback
  (\<^verbatim>\<open>pdev->dev.release = release_dev\<close>), which frees the backing storage.
\<close>

definition put_device :: "world \<Rightarrow> world" where
  "put_device w =
     (let n = pdev_kref w - 1;
          w = (if n = 0 then release_dev w else w)
      in call Put_device (w\<lparr>pdev_kref := n\<rparr>))"

text \<open>
  Modelled from the spec: \<^verbatim>\<open>devres_release_group\<close> and the DRM core are the kernel's.
  Releasing the group releases what was registered in it, which is the DRM device of
  \<^verbatim>\<open>devm_drm_dev_alloc\<close> when that call succeeded; dropping the last reference of the DRM
  device runs the driver's release callback, \<^verbatim>\<open>mock_driver.release = mock_device_release\<close>.
\<close>

definition drm_dev_put :: "env \<Rightarrow> world \<Rightarrow> world option" where
  "drm_dev_put e w = do {
     w \<leftarrow> mock_device_release e w;
     Some (call Drm_dev_put (w\<lparr>drm_dev_live := False\<rparr>))
   }"

definition devres_release_group :: "env \<Rightarrow> world \<Rightarrow> world option" where
  "devres_release_group e w = do {
     w \<leftarrow> (if drm_dev_live w then drm_dev_put e w else Some w);
     Some (call Devres_release_group w)
   }"

definition mock_destroy_device :: "env \<Rightarrow> world \<Rightarrow> world option" where
  "mock_destroy_device e w = do {
     w \<leftarrow> devres_release_group e w;
     Some (put_device w)
   }"

section \<open>Construction\<close>

definition mock_gt_probe :: "world \<Rightarrow> world" where
  "mock_gt_probe w = upd (\<lambda>d. d\<lparr>gt_probed := True, gt_name := ''Mock GT''\<rparr>) w"

text \<open>
  \<^verbatim>\<open>for (i = 0; i < I915_MAX_CACHE_LEVEL; i++) cachelevel_to_pat[i] = i;\<close>
\<close>

function cachelevel_loop :: "nat \<Rightarrow> nat \<Rightarrow> nat list \<Rightarrow> nat list" where
  "cachelevel_loop i n tab = (if i < n then cachelevel_loop (Suc i) n (tab[i := i]) else tab)"
  by pat_completeness auto
termination
  by (relation "measure (\<lambda>(i, n, tab). n - i)") auto

declare cachelevel_loop.simps [simp del]

text \<open>The unwind chain: each label falls through to the next.\<close>

definition err_drv :: "env \<Rightarrow> world \<Rightarrow> (drm_i915_private option \<times> world) option" where
  "err_drv e w = do {
     let w = call Intel_gt_driver_late_release_all w;
     let w = call Intel_memory_regions_driver_release w;
     let w = call Drm_mode_config_cleanup w;
     w \<leftarrow> mock_destroy_device e w;
     Some (None, w)
   }"

definition err_uncore :: "env \<Rightarrow> world \<Rightarrow> (drm_i915_private option \<times> world) option" where
  "err_uncore e w = err_drv e (call Mock_uncore_uninit w)"

definition err_free_wq :: "env \<Rightarrow> world \<Rightarrow> (drm_i915_private option \<times> world) option" where
  "err_free_wq e w = err_uncore e (call (Destroy_workqueue (wq (i915 w))) w)"

definition err_unlock :: "env \<Rightarrow> world \<Rightarrow> (drm_i915_private option \<times> world) option" where
  "err_unlock e w = err_free_wq e (call (I915_sched_engine_put (sched (i915 w))) w)"

definition err_context :: "env \<Rightarrow> world \<Rightarrow> (drm_i915_private option \<times> world) option" where
  "err_context e w = err_unlock e (call Intel_gt_driver_remove w)"

text \<open>
  \<^verbatim>\<open>mock_gem_device\<close>, from the allocation of the engine on (lines 233 to 247).
\<close>

definition mock_gem_device_engine :: "env \<Rightarrow> world \<Rightarrow> (drm_i915_private option \<times> world) option" where
  "mock_gem_device_engine e w =
     (let w = call (Mock_engine (mock_engine_ret e)) w;
          w = upd (\<lambda>d. d\<lparr>gt_engine := (gt_engine d)(RCS0 := mock_engine_ret e)\<rparr>) w
      in if gt_engine (i915 w) RCS0 = None then err_unlock e w
         else
           let w = call (Mock_engine_init (gt_engine (i915 w) RCS0) (mock_engine_init_ret e)) w
           in if mock_engine_init_ret e \<noteq> 0 then err_context e w
              else
                let w = upd (\<lambda>d. d\<lparr>gt_wedged := False\<rparr>) w;
                    w = init Intel_engines_driver_register w;
                    w = upd (\<lambda>d. d\<lparr>do_release := True\<rparr>) w;
                    w = init Ida_init w;
                    w = call I915_debugger_init w
                in Some (Some (i915 w), w))"

text \<open>From the allocation of the workqueue on (lines 208 to 231).\<close>

definition mock_gem_device_wq :: "env \<Rightarrow> world \<Rightarrow> (drm_i915_private option \<times> world) option" where
  "mock_gem_device_wq e w =
     (let w = call (Alloc_workqueue (alloc_workqueue_ret e)) w;
          w = upd (\<lambda>d. d\<lparr>wq := alloc_workqueue_ret e\<rparr>) w
      in if wq (i915 w) = None then err_uncore e w
         else
           let w = call (I915_sched_engine_create_cpu 3 (wq (i915 w)) Cpu_all_mask
                           (sched_engine_create_ret e)) w;
               w = upd (\<lambda>d. d\<lparr>sched := sched_engine_create_ret e\<rparr>) w
           in if sched (i915 w) = None then err_free_wq e w
              else
                let w = upd (\<lambda>d. d\<lparr>mm_sched := sched d\<rparr>) w;
                    w = upd (\<lambda>d. d\<lparr>mm_wq := wq d\<rparr>) w;
                    w = init Mock_init_contexts w;
                    w = call (Drmm_kzalloc (drmm_kzalloc_ret e)) w
                in if drmm_kzalloc_ret e = None then err_unlock e w
                   else
                     let w = upd (\<lambda>d. d\<lparr>gt_ggtt := drmm_kzalloc_ret e\<rparr>) w;
                         w = call Mock_init_ggtt w;
                         w = call I915_vm_get w;
                         w = upd (\<lambda>d. d\<lparr>gt_vm := gt_ggtt d\<rparr>) w;
                         w = upd (\<lambda>d. d\<lparr>platform_engine_mask := 1\<rparr>) w;
                         w = upd (\<lambda>d. d\<lparr>gt_engine_mask := 1\<rparr>) w
                     in mock_gem_device_engine e w)"

text \<open>From the device structure's first use on (lines 162 to 206).\<close>

definition mock_gem_device_early :: "env \<Rightarrow> world \<Rightarrow> (drm_i915_private option \<times> world) option" where
  "mock_gem_device_early e w =
     (let w = init Pci_set_drvdata w;
          w = init Dev_pm_domain_set w;
          w = init Pm_runtime_enable w;
          w = init Pm_runtime_dont_use_autosuspend w;
          w = call (Pm_runtime_enabled (pm_runtime_enabled_ret e)) w;
          w = (if pm_runtime_enabled_ret e then init Pm_runtime_get_sync w else w);
          w = upd (\<lambda>d. d\<lparr>mode := Some I915_IOV_MODE_NONE\<rparr>) w;
          w = call I915_params_copy (upd (\<lambda>d. d\<lparr>params_held := True\<rparr>) w);
          w = init Intel_runtime_pm_init_early w;
          w = call Drm_mode_config_init w;
          w = upd (\<lambda>d. d\<lparr>info_graphics_ver := - 1\<rparr>) w;
          w = upd (\<lambda>d. d\<lparr>runtime_graphics_ver := NOT 0\<rparr>) w;
          w = upd (\<lambda>d. d\<lparr>page_sizes :=
                 {I915_GTT_PAGE_SIZE_4K, I915_GTT_PAGE_SIZE_64K, I915_GTT_PAGE_SIZE_2M}\<rparr>) w;
          w = upd (\<lambda>d. d\<lparr>cachelevel_to_pat :=
                 cachelevel_loop 0 (I915_MAX_CACHE_LEVEL e) (cachelevel_to_pat d)\<rparr>) w;
          w = init Intel_root_gt_init_early w;
          w = upd (\<lambda>d. d\<lparr>gt_mock := True\<rparr>) w;
          w = call (Mock_uncore_init (mock_uncore_init_ret e)) w
      in if mock_uncore_init_ret e \<noteq> 0 then err_drv e w
         else
           let w = upd (\<lambda>d. d\<lparr>gt_wakeref_count := gt_wakeref_count d + 1\<rparr>) w;
               w = mock_gt_probe w;
               w = upd (\<lambda>d. d\<lparr>memory_regions := {REGION_SMEM}\<rparr>) w;
               w = call Intel_memory_regions_hw_probe w;
               w = init Spin_lock_init w;
               w = init Init_waitqueue_head w;
               w = init I915_gem_init_mm w
           in mock_gem_device_wq e w)"

text \<open>
  \<^verbatim>\<open>mock_gem_device\<close>. The result is the returned pointer (\<open>None\<close> is \<^verbatim>\<open>NULL\<close>, otherwise the
  device structure as it is at the return) and the world the call leaves behind.
\<close>

definition mock_gem_device :: "env \<Rightarrow> (drm_i915_private option \<times> world) option" where
  "mock_gem_device e =
     (let w = call (Kzalloc_pdev (kzalloc_ret e)) (world0 e)
      in if \<not> kzalloc_ret e then Some (None, w)
         else
           let w = init Device_initialize (w\<lparr>pdev_kref := 1\<rparr>);
               w = init Dev_set_name w;
               w = init Dma_coerce_mask_and_coherent w;
               w = call (Devres_open_group (devres_open_group_ret e)) w
           in if \<not> devres_open_group_ret e then Some (None, put_device w)
              else
                let w = call (Devm_drm_dev_alloc (devm_drm_dev_alloc_err e)) w
                in case devm_drm_dev_alloc_err e of
                     Some err \<Rightarrow> do {
                       let w = init (Pr_err err) w;
                       w \<leftarrow> devres_release_group e w;
                       Some (None, put_device w)
                     }
                   | None \<Rightarrow>
                       mock_gem_device_early e (w\<lparr>i915 := zeroed e, drm_dev_live := True\<rparr>))"

section \<open>Observing a run\<close>

text \<open>The calls of a log from the first occurrence of \<open>c\<close> on.\<close>

definition from_call :: "call \<Rightarrow> call list \<Rightarrow> call list" where
  "from_call c tr = dropWhile (\<lambda>x. x \<noteq> c) tr"

text \<open>
  The log of the drain loop when retirement reports outstanding work \<open>n\<close> times and then
  none: \<open>n + 1\<close> rounds of flushing every engine and asking once.
\<close>

definition drain_trace :: "env \<Rightarrow> drm_i915_private \<Rightarrow> nat \<Rightarrow> call list" where
  "drain_trace e d n =
     concat (replicate n (map Mock_engine_flush (for_each_engine e d)
                          @ [Intel_gt_retire_requests_timeout False]))
     @ map Mock_engine_flush (for_each_engine e d) @ [Intel_gt_retire_requests_timeout True]"

definition flushed :: "env \<Rightarrow> world \<Rightarrow> world \<Rightarrow> bool" where
  "flushed e w w' \<longleftrightarrow>
     (\<exists>n. (\<forall>j<n. \<not> retire_ret e (retire_calls w + j)) \<and> retire_ret e (retire_calls w + n) \<and>
          w' = w\<lparr>retire_calls := retire_calls w + n + 1,
                 trace := trace w @ drain_trace e (i915 w) n\<rparr>)"

text \<open>The two release calls that must wait for the drain.\<close>

definition engine_or_ggtt_release :: "call \<Rightarrow> bool" where
  "engine_or_ggtt_release c =
     (case c of Intel_gt_driver_remove \<Rightarrow> True | Mock_fini_ggtt g \<Rightarrow> True | _ \<Rightarrow> False)"

text \<open>
  The resources of the design and the calls that acquire and release them: the ledger a
  resource-tracking test double keeps.
\<close>

datatype resource =
    Identity
  | Devres_scope
  | Device_aggregate
  | Config_copy
  | Mode_config
  | Register_shim
  | Memory_regions
  | Workqueue
  | Scheduler
  | Translation_layer
  | Compute_engine
  | Debugger_hooks

definition acquires :: "call \<Rightarrow> resource option" where
  "acquires c =
     (case c of
        Kzalloc_pdev ok \<Rightarrow> if ok then Some Identity else None
      | Devres_open_group ok \<Rightarrow> if ok then Some Devres_scope else None
      | Devm_drm_dev_alloc err \<Rightarrow> if err = None then Some Device_aggregate else None
      | I915_params_copy \<Rightarrow> Some Config_copy
      | Drm_mode_config_init \<Rightarrow> Some Mode_config
      | Mock_uncore_init r \<Rightarrow> if r = 0 then Some Register_shim else None
      | Intel_memory_regions_hw_probe \<Rightarrow> Some Memory_regions
      | Alloc_workqueue h \<Rightarrow> if h = None then None else Some Workqueue
      | I915_sched_engine_create_cpu n q m h \<Rightarrow> if h = None then None else Some Scheduler
      | Mock_init_ggtt \<Rightarrow> Some Translation_layer
      | Mock_engine h \<Rightarrow> if h = None then None else Some Compute_engine
      | I915_debugger_init \<Rightarrow> Some Debugger_hooks
      | _ \<Rightarrow> None)"

definition releases :: "call \<Rightarrow> resource option" where
  "releases c =
     (case c of
        Kfree_pdev \<Rightarrow> Some Identity
      | Devres_release_group \<Rightarrow> Some Devres_scope
      | Drm_dev_put \<Rightarrow> Some Device_aggregate
      | I915_params_free \<Rightarrow> Some Config_copy
      | Drm_mode_config_cleanup \<Rightarrow> Some Mode_config
      | Mock_uncore_uninit \<Rightarrow> Some Register_shim
      | Intel_memory_regions_driver_release \<Rightarrow> Some Memory_regions
      | Destroy_workqueue q \<Rightarrow> Some Workqueue
      | I915_sched_engine_put s \<Rightarrow> Some Scheduler
      | Mock_fini_ggtt g \<Rightarrow> Some Translation_layer
      | Intel_gt_driver_remove \<Rightarrow> Some Compute_engine
      | I915_debugger_fini \<Rightarrow> Some Debugger_hooks
      | _ \<Rightarrow> None)"

definition acq_order :: "call list \<Rightarrow> resource list" where
  "acq_order tr = List.map_filter acquires tr"

definition rel_order :: "call list \<Rightarrow> resource list" where
  "rel_order tr = List.map_filter releases tr"

text \<open>What is still held after a log: acquired and not released since.\<close>

definition ledger_step :: "resource list \<Rightarrow> call \<Rightarrow> resource list" where
  "ledger_step held c =
     (let held = (case releases c of None \<Rightarrow> held | Some r \<Rightarrow> remove1 r held)
      in case acquires c of None \<Rightarrow> held | Some r \<Rightarrow> r # held)"

definition outstanding :: "call list \<Rightarrow> resource list" where
  "outstanding tr = foldl ledger_step [] tr"

text \<open>The eight resources of the construction chain.\<close>

definition chain_resources :: "resource list" where
  "chain_resources =
     [Identity, Devres_scope, Device_aggregate, Register_shim, Workqueue, Scheduler,
      Translation_layer, Compute_engine]"

definition chain :: "resource list \<Rightarrow> resource list" where
  "chain rs = filter (\<lambda>r. r \<in> set chain_resources) rs"

text \<open>Every collaborator succeeds.\<close>

definition all_succeed :: "env \<Rightarrow> bool" where
  "all_succeed e \<longleftrightarrow>
     kzalloc_ret e \<and> devres_open_group_ret e \<and> devm_drm_dev_alloc_err e = None \<and>
     mock_uncore_init_ret e = 0 \<and> alloc_workqueue_ret e \<noteq> None \<and>
     sched_engine_create_ret e \<noteq> None \<and> drmm_kzalloc_ret e \<noteq> None \<and>
     mock_engine_ret e \<noteq> None \<and> mock_engine_init_ret e = 0"

text \<open>A device structure with every handle of the chain in place and marked for release.\<close>

definition fully_constructed :: "drm_i915_private \<Rightarrow> bool" where
  "fully_constructed d \<longleftrightarrow>
     do_release d \<and> params_held d \<and> gt_mock d \<and> gt_probed d \<and> \<not> gt_wedged d \<and>
     wq d \<noteq> None \<and> sched d \<noteq> None \<and> mm_wq d = wq d \<and> mm_sched d = sched d \<and>
     gt_ggtt d \<noteq> None \<and> gt_vm d = gt_ggtt d \<and> gt_engine d RCS0 \<noteq> None \<and>
     platform_engine_mask d = 1 \<and> gt_engine_mask d = 1"

text \<open>Construction followed at once by destruction: the world after each.\<close>

definition construct_then_destroy :: "env \<Rightarrow> (world \<times> world) option" where
  "construct_then_destroy e = do {
     (r, w) \<leftarrow> mock_gem_device e;
     w' \<leftarrow> mock_destroy_device e w;
     Some (w, w')
   }"

text \<open>The calls destruction adds to the log of construction.\<close>

definition teardown_trace :: "world \<times> world \<Rightarrow> call list" where
  "teardown_trace ww = drop (length (trace (fst ww))) (trace (snd ww))"

text \<open>\<open>a\<close> is logged, and \<open>b\<close> is logged after it.\<close>

definition before :: "call \<Rightarrow> call \<Rightarrow> call list \<Rightarrow> bool" where
  "before a b tr \<longleftrightarrow> b \<in> set (from_call a tr) \<and> a \<noteq> b"

text \<open>The calls destruction logs when it follows a construction at once.\<close>

definition teardown_of :: "env \<Rightarrow> call list option" where
  "teardown_of e = map_option teardown_trace (construct_then_destroy e)"

text \<open>
  The order of the last two teardown steps as the specification lists them: the release
  of the devres scope with the drop of the identity reference (step 11), and after both
  the free of the configuration copy (step 12).
\<close>

definition config_copy_freed_last :: "call list \<Rightarrow> bool" where
  "config_copy_freed_last tr \<longleftrightarrow>
     before Devres_release_group I915_params_free tr \<and> before Put_device I915_params_free tr"

text \<open>
  What the ledger shows of a run of the constructor: whether it returned null, the chain
  resources in the order acquired, and those released, in the order released.
\<close>

definition construction_ledger :: "env \<Rightarrow> (bool \<times> resource list \<times> resource list) option" where
  "construction_ledger e =
     map_option (\<lambda>(r, w). (r = None, chain (acq_order (trace w)), chain (rel_order (trace w))))
       (mock_gem_device e)"

text \<open>The run gets as far as initialising the translation layer.\<close>

definition reaches_ggtt_init :: "env \<Rightarrow> bool" where
  "reaches_ggtt_init e \<longleftrightarrow>
     kzalloc_ret e \<and> devres_open_group_ret e \<and> devm_drm_dev_alloc_err e = None \<and>
     mock_uncore_init_ret e = 0 \<and> alloc_workqueue_ret e \<noteq> None \<and>
     sched_engine_create_ret e \<noteq> None \<and> drmm_kzalloc_ret e \<noteq> None"

text \<open>Scripts of the test double used below.\<close>

definition env_ok :: env where
  "env_ok =
     \<lparr> kzalloc_ret = True, devres_open_group_ret = True, devm_drm_dev_alloc_err = None,
       pm_runtime_enabled_ret = True, mock_uncore_init_ret = 0, alloc_workqueue_ret = Some 1,
       sched_engine_create_ret = Some 2, drmm_kzalloc_ret = Some 3, mock_engine_ret = Some 4,
       mock_engine_init_ret = 0, retire_ret = (\<lambda>k. 1 \<le> k), I915_MAX_CACHE_LEVEL = 4,
       I915_NUM_ENGINES = 2 \<rparr>"

section \<open>Basic facts\<close>

lemma call_simps [simp]:
  "trace (call c w) = trace w @ [c]" "i915 (call c w) = i915 w"
  "pdev_kref (call c w) = pdev_kref w" "drm_dev_live (call c w) = drm_dev_live w"
  "retire_calls (call c w) = retire_calls w"
  by (simp_all add: call_def)

lemma init_simps [simp]:
  "trace (init c w) = trace w @ [Init c]" "i915 (init c w) = i915 w"
  "pdev_kref (init c w) = pdev_kref w" "drm_dev_live (init c w) = drm_dev_live w"
  "retire_calls (init c w) = retire_calls w"
  by (simp_all add: init_def)

lemma upd_simps [simp]:
  "trace (upd f w) = trace w" "i915 (upd f w) = f (i915 w)"
  "pdev_kref (upd f w) = pdev_kref w" "drm_dev_live (upd f w) = drm_dev_live w"
  "retire_calls (upd f w) = retire_calls w"
  by (simp_all add: upd_def)

lemma fold_flush:
  "trace (fold (\<lambda>h. call (Mock_engine_flush h)) hs w) = trace w @ map Mock_engine_flush hs \<and>
   i915 (fold (\<lambda>h. call (Mock_engine_flush h)) hs w) = i915 w \<and>
   pdev_kref (fold (\<lambda>h. call (Mock_engine_flush h)) hs w) = pdev_kref w \<and>
   drm_dev_live (fold (\<lambda>h. call (Mock_engine_flush h)) hs w) = drm_dev_live w \<and>
   retire_calls (fold (\<lambda>h. call (Mock_engine_flush h)) hs w) = retire_calls w"
  by (induction hs arbitrary: w) simp_all

lemma flush_engines_simps [simp]:
  "trace (flush_engines e w) = trace w @ map Mock_engine_flush (for_each_engine e (i915 w))"
  "i915 (flush_engines e w) = i915 w" "pdev_kref (flush_engines e w) = pdev_kref w"
  "drm_dev_live (flush_engines e w) = drm_dev_live w"
  "retire_calls (flush_engines e w) = retire_calls w"
  by (simp_all add: flush_engines_def fold_flush)

subsection \<open>The drain loop\<close>

text \<open>If retirement reports no outstanding work at its \<open>n\<close>-th answer, the loop returns.\<close>

lemma flush_exact:
  "\<forall>j<n. \<not> retire_ret e (retire_calls w + j) \<Longrightarrow> retire_ret e (retire_calls w + n) \<Longrightarrow>
   mock_device_flush e w =
     Some (w\<lparr>retire_calls := retire_calls w + n + 1,
             trace := trace w @ drain_trace e (i915 w) n\<rparr>)"
proof (induction n arbitrary: w)
  case 0
  then show ?case
    by (subst mock_device_flush.simps) (simp add: Let_def drain_trace_def call_def)
next
  case (Suc n)
  let ?w2 = "call (Intel_gt_retire_requests_timeout False)
               ((flush_engines e w)\<lparr>retire_calls := Suc (retire_calls w)\<rparr>)"
  have nr: "\<not> retire_ret e (retire_calls w)"
    using Suc.prems(1) by (metis add.right_neutral zero_less_Suc)
  have step: "mock_device_flush e w = mock_device_flush e ?w2"
    by (subst mock_device_flush.simps) (simp add: Let_def nr)
  have rc: "retire_calls ?w2 = Suc (retire_calls w)"
    by simp
  have a: "\<forall>j<n. \<not> retire_ret e (retire_calls ?w2 + j)"
  proof (intro allI impI)
    fix j
    assume "j < n"
    then have "Suc j < Suc n"
      by simp
    from Suc.prems(1)[rule_format, OF this]
    show "\<not> retire_ret e (retire_calls ?w2 + j)"
      by (simp add: rc)
  qed
  have b: "retire_ret e (retire_calls ?w2 + n)"
    using Suc.prems(2) by (simp add: rc)
  show ?case
    unfolding step Suc.IH[OF a b] by (simp add: drain_trace_def call_def)
qed

text \<open>If the loop returns, retirement has reported no outstanding work, in its last answer.\<close>

lemma flush_partial:
  assumes "mock_device_flush e w = Some w'"
  shows "flushed e w w'"
proof (rule mock_device_flush.raw_induct[where P = flushed, OF _ assms])
  fix f e w w'
  assume IH: "\<And>e w w'. f e w = Some w' \<Longrightarrow> flushed e w w'"
  assume eq: "(let w1 = flush_engines e w; r = retire_ret e (retire_calls w1);
          w2 = call (Intel_gt_retire_requests_timeout r)
                (w1\<lparr>retire_calls := Suc (retire_calls w1)\<rparr>)
      in if \<not> r then f e w2 else Some w2) = Some w'"
  let ?w2 = "\<lambda>r. call (Intel_gt_retire_requests_timeout r)
                 ((flush_engines e w)\<lparr>retire_calls := Suc (retire_calls w)\<rparr>)"
  show "flushed e w w'"
  proof (cases "retire_ret e (retire_calls w)")
    case True
    then have "w' = ?w2 True"
      using eq by (simp add: Let_def)
    then have "w' = w\<lparr>retire_calls := retire_calls w + 0 + 1,
                      trace := trace w @ drain_trace e (i915 w) 0\<rparr>"
      by (simp add: drain_trace_def call_def)
    with True show ?thesis
      unfolding flushed_def by (intro exI[of _ 0]) simp
  next
    case False
    then have "f e (?w2 False) = Some w'"
      using eq by (simp add: Let_def)
    from IH[OF this] obtain n where
      n: "\<forall>j<n. \<not> retire_ret e (Suc (retire_calls w) + j)"
         "retire_ret e (Suc (retire_calls w) + n)"
         "w' = (?w2 False)\<lparr>retire_calls := retire_calls (?w2 False) + n + 1,
               trace := trace (?w2 False) @ drain_trace e (i915 (?w2 False)) n\<rparr>"
      unfolding flushed_def by auto
    have a: "\<forall>j<Suc n. \<not> retire_ret e (retire_calls w + j)"
      using n(1) False by (auto simp: less_Suc_eq_0_disj)
    have b: "retire_ret e (retire_calls w + Suc n)"
      using n(2) by simp
    have c: "w' = w\<lparr>retire_calls := retire_calls w + Suc n + 1,
                     trace := trace w @ drain_trace e (i915 w) (Suc n)\<rparr>"
      unfolding n(3) by (simp add: drain_trace_def call_def)
    from a b c show ?thesis
      unfolding flushed_def by blast
  qed
qed

subsection \<open>Release paths\<close>

lemma i915_params_free_simps [simp]:
  "trace (i915_params_free w) = trace w @ [I915_params_free]"
  "i915 (i915_params_free w) = (i915 w)\<lparr>params_held := False\<rparr>"
  "pdev_kref (i915_params_free w) = pdev_kref w"
  "drm_dev_live (i915_params_free w) = drm_dev_live w"
  "retire_calls (i915_params_free w) = retire_calls w"
  by (simp_all add: i915_params_free_def)

lemma put_device_simps [simp]:
  "trace (put_device w) =
     trace w @ (if pdev_kref w - 1 = 0 then [Kfree_pdev] else []) @ [Put_device]"
  "i915 (put_device w) = i915 w"
  "pdev_kref (put_device w) = pdev_kref w - 1"
  "drm_dev_live (put_device w) = drm_dev_live w"
  "retire_calls (put_device w) = retire_calls w"
  by (simp_all add: put_device_def release_dev_def Let_def)

lemma release_not_marked:
  "\<not> do_release (i915 w) \<Longrightarrow> mock_device_release e w = Some (i915_params_free w)"
  by (simp add: mock_device_release_def)

lemma destroy_not_marked:
  "\<not> do_release (i915 w) \<Longrightarrow> drm_dev_live w \<Longrightarrow>
   mock_destroy_device e w =
     Some (put_device (call Devres_release_group
             (call Drm_dev_put ((i915_params_free w)\<lparr>drm_dev_live := False\<rparr>))))"
  by (simp add: mock_destroy_device_def devres_release_group_def drm_dev_put_def
      release_not_marked)

lemma release_marked:
  assumes "do_release (i915 w)"
    and "\<forall>j<n. \<not> retire_ret e (retire_calls w + j)" "retire_ret e (retire_calls w + n)"
  shows "mock_device_release e w =
     Some (w\<lparr>i915 := (i915 w)\<lparr>params_held := False\<rparr>,
             retire_calls := retire_calls w + n + 1,
             trace := trace w @ [I915_debugger_fini] @ drain_trace e (i915 w) n @
               [Intel_gt_driver_remove, I915_gem_drain_workqueue, I915_gem_drain_freed_objects,
                Mock_fini_ggtt (gt_ggtt (i915 w)), I915_sched_engine_put (sched (i915 w)),
                Intel_gt_driver_late_release_all, Intel_memory_regions_driver_release,
                Destroy_workqueue (wq (i915 w)), Drm_mode_config_cleanup, Mock_uncore_uninit,
                I915_params_free]\<rparr>)"
proof -
  let ?w0 = "call I915_debugger_fini w"
  have "mock_device_flush e ?w0 =
     Some (?w0\<lparr>retire_calls := retire_calls ?w0 + n + 1,
             trace := trace ?w0 @ drain_trace e (i915 ?w0) n\<rparr>)"
    by (rule flush_exact) (use assms in simp_all)
  then show ?thesis
    using assms(1) by (simp add: mock_device_release_def i915_params_free_def call_def upd_def)
qed

subsection \<open>The cache-attribute loop\<close>

lemma cachelevel_loop_from:
  "i \<le> n \<Longrightarrow> length tab = n \<Longrightarrow> cachelevel_loop i n tab = take i tab @ [i ..< n]"
proof (induction i n tab rule: cachelevel_loop.induct)
  case (1 i n tab)
  show ?case
  proof (cases "i < n")
    case True
    then have "cachelevel_loop i n tab = cachelevel_loop (Suc i) n (tab[i := i])"
      by (subst cachelevel_loop.simps) simp
    also have "\<dots> = take (Suc i) (tab[i := i]) @ [Suc i ..< n]"
      using True 1 by simp
    also have "\<dots> = take i tab @ [i ..< n]"
      using True 1(3) by (simp add: take_Suc_conv_app_nth upt_conv_Cons)
    finally show ?thesis .
  next
    case False
    with 1 show ?thesis
      by (subst cachelevel_loop.simps) simp
  qed
qed

lemma cachelevel_loop_identity:
  "length tab = n \<Longrightarrow> cachelevel_loop 0 n tab = [0 ..< n]"
  using cachelevel_loop_from[of 0 n tab] by simp

subsection \<open>Running the constructor\<close>

lemmas unwind_defs = err_drv_def err_uncore_def err_free_wq_def err_unlock_def err_context_def

lemmas construct_defs = mock_gt_probe_def mock_gem_device_def mock_gem_device_early_def
  mock_gem_device_wq_def mock_gem_device_engine_def

lemmas run_simps = construct_defs unwind_defs Let_def zeroed_def world0_def destroy_not_marked


lemmas ledger_simps = acq_order_def rel_order_def acquires_def releases_def chain_def
  chain_resources_def map_filter_simps

lemma env_ok_facts:
  "all_succeed env_ok" "\<not> retire_ret env_ok 0" "retire_ret env_ok 1"
  "mock_engine_ret env_ok = Some 4" "drmm_kzalloc_ret env_ok = Some 3"
  "sched_engine_create_ret env_ok = Some 2" "alloc_workqueue_ret env_ok = Some 1"
  "I915_NUM_ENGINES env_ok = 2" "I915_MAX_CACHE_LEVEL env_ok = 4"
  "kzalloc_ret env_ok" "devres_open_group_ret env_ok" "devm_drm_dev_alloc_err env_ok = None"
  "mock_uncore_init_ret env_ok = 0"
  by (simp_all add: env_ok_def all_succeed_def)

text \<open>A successful construction, and what it leaves behind.\<close>

lemma construct_ok:
  assumes "all_succeed e"
  shows "\<exists>w. mock_gem_device e = Some (Some (i915 w), w) \<and> do_release (i915 w) \<and>
     drm_dev_live w \<and> pdev_kref w = 1 \<and> retire_calls w = 0 \<and>
     wq (i915 w) = alloc_workqueue_ret e \<and> sched (i915 w) = sched_engine_create_ret e \<and>
     gt_ggtt (i915 w) = drmm_kzalloc_ret e \<and>
     gt_engine (i915 w) = (\<lambda>_. None)(RCS0 := mock_engine_ret e) \<and>
     outstanding (trace w) =
       [Debugger_hooks, Compute_engine, Translation_layer, Scheduler, Workqueue,
        Memory_regions, Register_shim, Mode_config, Config_copy, Device_aggregate,
        Devres_scope, Identity]"
  using assms
  by (auto simp add: run_simps all_succeed_def outstanding_def ledger_step_def acquires_def
      releases_def)

text \<open>The fields a successful construction leaves set, at the script \<open>env_ok\<close>.\<close>

lemma construct_env_ok:
  "\<exists>w. mock_gem_device env_ok = Some (Some (i915 w), w) \<and> do_release (i915 w) \<and>
     params_held (i915 w) \<and> wq (i915 w) = Some 1 \<and> sched (i915 w) = Some 2 \<and>
     gt_ggtt (i915 w) = Some 3 \<and> gt_engine (i915 w) RCS0 = Some 4 \<and>
     cachelevel_to_pat (i915 w) = [0, 1, 2, 3] \<and> gt_name (i915 w) = ''Mock GT'' \<and>
     pdev_kref w = 1 \<and> drm_dev_live w \<and> length (trace w) = 32"
  by (simp add: env_ok_def run_simps RCS0_def cachelevel_loop_identity upt_rec)

text \<open>Before the translation layer is initialised, every failure unwinds its prefix.\<close>

lemma prefix_unwind_before_ggtt_init:
  assumes "\<not> reaches_ggtt_init e"
  shows "\<exists>w. mock_gem_device e = Some (None, w) \<and>
     chain (rel_order (trace w)) = rev (chain (acq_order (trace w)))"
proof -
  consider
      (pdev) "\<not> kzalloc_ret e"
    | (group) "kzalloc_ret e" "\<not> devres_open_group_ret e"
    | (dev) err where "kzalloc_ret e" "devres_open_group_ret e"
        "devm_drm_dev_alloc_err e = Some err"
    | (uncore) "kzalloc_ret e" "devres_open_group_ret e" "devm_drm_dev_alloc_err e = None"
        "mock_uncore_init_ret e \<noteq> 0"
    | (wq) "kzalloc_ret e" "devres_open_group_ret e" "devm_drm_dev_alloc_err e = None"
        "mock_uncore_init_ret e = 0" "alloc_workqueue_ret e = None"
    | (sched) q where "kzalloc_ret e" "devres_open_group_ret e"
        "devm_drm_dev_alloc_err e = None" "mock_uncore_init_ret e = 0"
        "alloc_workqueue_ret e = Some q" "sched_engine_create_ret e = None"
    | (ggtt) q s where "kzalloc_ret e" "devres_open_group_ret e"
        "devm_drm_dev_alloc_err e = None" "mock_uncore_init_ret e = 0"
        "alloc_workqueue_ret e = Some q" "sched_engine_create_ret e = Some s"
        "drmm_kzalloc_ret e = None"
    using assms unfolding reaches_ggtt_init_def by (metis not_None_eq)
  then show ?thesis
  proof cases
    case pdev
    then show ?thesis
      by (simp add: run_simps ledger_simps)
  next
    case group
    then show ?thesis
      by (simp add: run_simps ledger_simps)
  next
    case dev
    then show ?thesis
      by (simp add: run_simps ledger_simps devres_release_group_def)
  next
    case uncore
    then show ?thesis
      by (simp add: run_simps ledger_simps)
  next
    case wq
    then show ?thesis
      by (simp add: run_simps ledger_simps)
  next
    case sched
    then show ?thesis
      by (simp add: run_simps ledger_simps)
  next
    case ggtt
    then show ?thesis
      by (simp add: run_simps ledger_simps)
  qed
qed

subsection \<open>Destroying a constructed device\<close>

lemma ledger_neutral:
  "\<forall>c \<in> set xs. acquires c = None \<and> releases c = None \<Longrightarrow> foldl ledger_step h xs = h"
  by (induction xs arbitrary: h) (simp_all add: ledger_step_def)

lemma drain_neutral:
  "\<forall>c \<in> set (drain_trace e d n). acquires c = None \<and> releases c = None"
  by (auto simp add: drain_trace_def acquires_def releases_def)

lemma destroy_marked:
  assumes "do_release (i915 w)" "drm_dev_live w" "pdev_kref w = 1"
    and "\<forall>j<n. \<not> retire_ret e (retire_calls w + j)" "retire_ret e (retire_calls w + n)"
  shows "\<exists>w'. mock_destroy_device e w = Some w' \<and>
     trace w' = trace w @ [I915_debugger_fini] @ drain_trace e (i915 w) n @
       [Intel_gt_driver_remove, I915_gem_drain_workqueue, I915_gem_drain_freed_objects,
        Mock_fini_ggtt (gt_ggtt (i915 w)), I915_sched_engine_put (sched (i915 w)),
        Intel_gt_driver_late_release_all, Intel_memory_regions_driver_release,
        Destroy_workqueue (wq (i915 w)), Drm_mode_config_cleanup, Mock_uncore_uninit,
        I915_params_free, Drm_dev_put, Devres_release_group, Kfree_pdev, Put_device]"
  using assms(1,2,3)
  by (simp add: mock_destroy_device_def devres_release_group_def drm_dev_put_def
      release_marked[OF assms(1,4,5)])

lemma construct_then_destroy_exact:
  assumes "all_succeed e" and "\<forall>j<n. \<not> retire_ret e j" "retire_ret e n"
  shows "\<exists>w w'. construct_then_destroy e = Some (w, w') \<and>
     mock_gem_device e = Some (Some (i915 w), w) \<and>
     gt_engine (i915 w) = (\<lambda>_. None)(RCS0 := mock_engine_ret e) \<and>
     teardown_trace (w, w') =
       [I915_debugger_fini] @ drain_trace e (i915 w) n @
       [Intel_gt_driver_remove, I915_gem_drain_workqueue, I915_gem_drain_freed_objects,
        Mock_fini_ggtt (drmm_kzalloc_ret e), I915_sched_engine_put (sched_engine_create_ret e),
        Intel_gt_driver_late_release_all, Intel_memory_regions_driver_release,
        Destroy_workqueue (alloc_workqueue_ret e), Drm_mode_config_cleanup, Mock_uncore_uninit,
        I915_params_free, Drm_dev_put, Devres_release_group, Kfree_pdev, Put_device] \<and>
     outstanding (trace w') = []"
proof -
  from construct_ok[OF assms(1)] obtain w where
    w: "mock_gem_device e = Some (Some (i915 w), w)" "do_release (i915 w)"
     "drm_dev_live w" "pdev_kref w = 1" "retire_calls w = 0"
     "wq (i915 w) = alloc_workqueue_ret e" "sched (i915 w) = sched_engine_create_ret e"
     "gt_ggtt (i915 w) = drmm_kzalloc_ret e"
     "outstanding (trace w) =
       [Debugger_hooks, Compute_engine, Translation_layer, Scheduler, Workqueue,
        Memory_regions, Register_shim, Mode_config, Config_copy, Device_aggregate,
        Devres_scope, Identity]"
     "gt_engine (i915 w) = (\<lambda>_. None)(RCS0 := mock_engine_ret e)"
    by blast
  have a: "\<forall>j<n. \<not> retire_ret e (retire_calls w + j)" "retire_ret e (retire_calls w + n)"
    using assms(2,3) w(5) by simp_all
  from destroy_marked[OF w(2,3,4) a] obtain w' where
    w': "mock_destroy_device e w = Some w'"
     "trace w' = trace w @ [I915_debugger_fini] @ drain_trace e (i915 w) n @
       [Intel_gt_driver_remove, I915_gem_drain_workqueue, I915_gem_drain_freed_objects,
        Mock_fini_ggtt (gt_ggtt (i915 w)), I915_sched_engine_put (sched (i915 w)),
        Intel_gt_driver_late_release_all, Intel_memory_regions_driver_release,
        Destroy_workqueue (wq (i915 w)), Drm_mode_config_cleanup, Mock_uncore_uninit,
        I915_params_free, Drm_dev_put, Devres_release_group, Kfree_pdev, Put_device]"
    by blast
  have c: "construct_then_destroy e = Some (w, w')"
    by (simp add: construct_then_destroy_def w(1) w'(1))
  have t: "teardown_trace (w, w') = [I915_debugger_fini] @ drain_trace e (i915 w) n @
       [Intel_gt_driver_remove, I915_gem_drain_workqueue, I915_gem_drain_freed_objects,
        Mock_fini_ggtt (drmm_kzalloc_ret e), I915_sched_engine_put (sched_engine_create_ret e),
        Intel_gt_driver_late_release_all, Intel_memory_regions_driver_release,
        Destroy_workqueue (alloc_workqueue_ret e), Drm_mode_config_cleanup, Mock_uncore_uninit,
        I915_params_free, Drm_dev_put, Devres_release_group, Kfree_pdev, Put_device]"
    by (simp add: teardown_trace_def w'(2) w(6,7,8))
  have "outstanding (trace w') =
     foldl ledger_step
       (foldl ledger_step (foldl ledger_step (outstanding (trace w)) [I915_debugger_fini])
          (drain_trace e (i915 w) n))
       [Intel_gt_driver_remove, I915_gem_drain_workqueue, I915_gem_drain_freed_objects,
        Mock_fini_ggtt (gt_ggtt (i915 w)), I915_sched_engine_put (sched (i915 w)),
        Intel_gt_driver_late_release_all, Intel_memory_regions_driver_release,
        Destroy_workqueue (wq (i915 w)), Drm_mode_config_cleanup, Mock_uncore_uninit,
        I915_params_free, Drm_dev_put, Devres_release_group, Kfree_pdev, Put_device]"
    unfolding w'(2) outstanding_def foldl_append ..
  also have "\<dots> = []"
    unfolding ledger_neutral[OF drain_neutral] w(9)
    by (simp add: ledger_step_def acquires_def releases_def)
  finally have o: "outstanding (trace w') = []" .
  from c w(1) w(10) t o show ?thesis
    by blast
qed

lemma env_ok_teardown:
  "teardown_of env_ok =
     Some [I915_debugger_fini,
           Mock_engine_flush 4, Intel_gt_retire_requests_timeout False,
           Mock_engine_flush 4, Intel_gt_retire_requests_timeout True,
           Intel_gt_driver_remove, I915_gem_drain_workqueue, I915_gem_drain_freed_objects,
           Mock_fini_ggtt (Some 3), I915_sched_engine_put (Some 2),
           Intel_gt_driver_late_release_all, Intel_memory_regions_driver_release,
           Destroy_workqueue (Some 1), Drm_mode_config_cleanup, Mock_uncore_uninit,
           I915_params_free, Drm_dev_put, Devres_release_group, Kfree_pdev, Put_device]"
proof -
  have idle: "\<forall>j<1. \<not> retire_ret env_ok j"
    using env_ok_facts(2) by simp
  from construct_then_destroy_exact[OF env_ok_facts(1) idle env_ok_facts(3)]
  show ?thesis
    by (auto simp add: teardown_of_def env_ok_facts drain_trace_def for_each_engine_def
        RCS0_def map_filter_simps upt_rec)
qed

section \<open>Properties of construction\<close>

text \<open>
  C1. Prefix unwind: when a step of the construction is the first to fail, every resource
  of the chain acquired before it is released exactly once, in reverse order of
  acquisition. The constructor breaks this when the engine cannot be allocated or cannot
  be initialised: the translation layer, initialised by \<open>mock_init_ggtt\<close>, is among the
  resources acquired and is not among those released, as \<open>mock_fini_ggtt\<close> is never called.
\<close>

theorem ggtt_not_released_on_engine_failure:
  "construction_ledger (env_ok\<lparr>mock_engine_ret := None\<rparr>) =
     Some (True,
       [Identity, Devres_scope, Device_aggregate, Register_shim, Workqueue, Scheduler,
        Translation_layer],
       [Scheduler, Workqueue, Register_shim, Device_aggregate, Devres_scope, Identity]) \<and>
   construction_ledger (env_ok\<lparr>mock_engine_init_ret := - 12\<rparr>) =
     Some (True,
       [Identity, Devres_scope, Device_aggregate, Register_shim, Workqueue, Scheduler,
        Translation_layer, Compute_engine],
       [Compute_engine, Scheduler, Workqueue, Register_shim, Device_aggregate, Devres_scope,
        Identity])"
  by (simp add: construction_ledger_def env_ok_def run_simps ledger_simps)

text \<open>
  C2. If construction fails at the allocation of the translation layer (\<^verbatim>\<open>drmm_kzalloc\<close>
  returns null), the constructor releases the scheduler, destroys the workqueue,
  uninitialises the register shim, releases the grouped devres scope, releases the
  identity, and returns null. The log from the failing call on is exactly this unwind.
\<close>

theorem ggtt_alloc_failure_unwinds:
  assumes "kzalloc_ret e" "devres_open_group_ret e" "devm_drm_dev_alloc_err e = None"
    "mock_uncore_init_ret e = 0" "alloc_workqueue_ret e = Some q"
    "sched_engine_create_ret e = Some s" "drmm_kzalloc_ret e = None"
  shows "\<exists>w. mock_gem_device e = Some (None, w) \<and>
     from_call (Drmm_kzalloc None) (trace w) =
       [Drmm_kzalloc None, I915_sched_engine_put (Some s), Destroy_workqueue (Some q),
        Mock_uncore_uninit, Intel_gt_driver_late_release_all,
        Intel_memory_regions_driver_release, Drm_mode_config_cleanup, I915_params_free,
        Drm_dev_put, Devres_release_group, Kfree_pdev, Put_device]"
  using assms by (simp add: run_simps from_call_def)

theorem ggtt_alloc_failure_unwinds_witness:
  "kzalloc_ret (env_ok\<lparr>drmm_kzalloc_ret := None\<rparr>) \<and>
   devres_open_group_ret (env_ok\<lparr>drmm_kzalloc_ret := None\<rparr>) \<and>
   devm_drm_dev_alloc_err (env_ok\<lparr>drmm_kzalloc_ret := None\<rparr>) = None \<and>
   mock_uncore_init_ret (env_ok\<lparr>drmm_kzalloc_ret := None\<rparr>) = 0 \<and>
   alloc_workqueue_ret (env_ok\<lparr>drmm_kzalloc_ret := None\<rparr>) = Some 1 \<and>
   sched_engine_create_ret (env_ok\<lparr>drmm_kzalloc_ret := None\<rparr>) = Some 2 \<and>
   drmm_kzalloc_ret (env_ok\<lparr>drmm_kzalloc_ret := None\<rparr>) = None \<and>
   (\<exists>w. mock_gem_device (env_ok\<lparr>drmm_kzalloc_ret := None\<rparr>) = Some (None, w) \<and>
     from_call (Drmm_kzalloc None) (trace w) =
       [Drmm_kzalloc None, I915_sched_engine_put (Some 2), Destroy_workqueue (Some 1),
        Mock_uncore_uninit, Intel_gt_driver_late_release_all,
        Intel_memory_regions_driver_release, Drm_mode_config_cleanup, I915_params_free,
        Drm_dev_put, Devres_release_group, Kfree_pdev, Put_device])"
  using ggtt_alloc_failure_unwinds[of "env_ok\<lparr>drmm_kzalloc_ret := None\<rparr>" 1 2]
  by (simp add: env_ok_def)

text \<open>
  C3. Whatever the collaborators answer, the constructor returns, and it returns either
  null or a fully constructed device with \<open>do_release\<close> set; it returns a device exactly
  when every collaborator succeeded. No partially constructed device is returned.
\<close>

theorem mock_gem_device_all_or_nothing:
  "\<exists>r w. mock_gem_device e = Some (r, w) \<and>
     (case r of
        None \<Rightarrow> \<not> all_succeed e
      | Some d \<Rightarrow> all_succeed e \<and> d = i915 w \<and> fully_constructed d)"
  by (cases "devm_drm_dev_alloc_err e")
    (simp_all add: run_simps all_succeed_def fully_constructed_def RCS0_def
      devres_release_group_def)

text \<open>
  C7. After a run of the construction path that reaches the device structure, the
  cache-attribute table maps every index \<open>i\<close> below the maximum cache level to \<open>i\<close>. The
  table depends on nothing but that bound, so every repetition of the construction yields
  the same table.
\<close>

theorem cachelevel_table_identity:
  assumes "mock_gem_device e = Some (r, w)"
    and "kzalloc_ret e" "devres_open_group_ret e" "devm_drm_dev_alloc_err e = None"
  shows "cachelevel_to_pat (i915 w) = [0 ..< I915_MAX_CACHE_LEVEL e] \<and>
         (\<forall>i < I915_MAX_CACHE_LEVEL e. cachelevel_to_pat (i915 w) ! i = i) \<and>
         (\<forall>d. r = Some d \<longrightarrow> cachelevel_to_pat d = [0 ..< I915_MAX_CACHE_LEVEL e])"
proof -
  have "cachelevel_to_pat (i915 w) = [0 ..< I915_MAX_CACHE_LEVEL e] \<and>
     (\<forall>d. r = Some d \<longrightarrow> cachelevel_to_pat d = [0 ..< I915_MAX_CACHE_LEVEL e])"
    using assms
    by (auto simp add: run_simps cachelevel_loop_identity split: if_splits)
  then show ?thesis
    by simp
qed

theorem cachelevel_table_identity_witness:
  "kzalloc_ret env_ok \<and> devres_open_group_ret env_ok \<and> devm_drm_dev_alloc_err env_ok = None \<and>
   (\<exists>w. mock_gem_device env_ok = Some (Some (i915 w), w) \<and>
      cachelevel_to_pat (i915 w) = [0, 1, 2, 3] \<and>
      cachelevel_to_pat (i915 w) ! 0 = 0 \<and> cachelevel_to_pat (i915 w) ! 1 = 1 \<and>
      cachelevel_to_pat (i915 w) ! 2 = 2 \<and> cachelevel_to_pat (i915 w) ! 3 = 3)"
proof -
  from construct_ok[OF env_ok_facts(1)] obtain w where
    w: "mock_gem_device env_ok = Some (Some (i915 w), w)"
    by blast
  have u: "[0 ..< 4] = [0, 1, 2, 3::nat]"
    by (simp add: upt_rec)
  from cachelevel_table_identity[OF w env_ok_facts(10,11,12)] w u show ?thesis
    by (auto simp add: env_ok_facts)
qed

text \<open>
  C8. The scheduler is created right after the workqueue, bound to the workqueue just
  allocated, with a width of 3 and the all-CPUs mask. If its creation fails, the workqueue
  is destroyed, then the unwind from the register shim on runs, and null is returned.
\<close>

theorem scheduler_creation:
  assumes "kzalloc_ret e" "devres_open_group_ret e" "devm_drm_dev_alloc_err e = None"
    "mock_uncore_init_ret e = 0" "alloc_workqueue_ret e = Some q"
  shows "\<exists>r w. mock_gem_device e = Some (r, w) \<and>
     take 2 (from_call (Alloc_workqueue (Some q)) (trace w)) =
       [Alloc_workqueue (Some q),
        I915_sched_engine_create_cpu 3 (Some q) Cpu_all_mask (sched_engine_create_ret e)] \<and>
     (sched_engine_create_ret e = None \<longrightarrow> r = None \<and>
        from_call (Alloc_workqueue (Some q)) (trace w) =
          [Alloc_workqueue (Some q),
           I915_sched_engine_create_cpu 3 (Some q) Cpu_all_mask None,
           Destroy_workqueue (Some q), Mock_uncore_uninit,
           Intel_gt_driver_late_release_all, Intel_memory_regions_driver_release,
           Drm_mode_config_cleanup, I915_params_free, Drm_dev_put, Devres_release_group,
           Kfree_pdev, Put_device])"
  using assms by (auto simp add: run_simps from_call_def)

theorem scheduler_creation_witness:
  "kzalloc_ret (env_ok\<lparr>sched_engine_create_ret := None\<rparr>) \<and>
   devres_open_group_ret (env_ok\<lparr>sched_engine_create_ret := None\<rparr>) \<and>
   devm_drm_dev_alloc_err (env_ok\<lparr>sched_engine_create_ret := None\<rparr>) = None \<and>
   mock_uncore_init_ret (env_ok\<lparr>sched_engine_create_ret := None\<rparr>) = 0 \<and>
   alloc_workqueue_ret (env_ok\<lparr>sched_engine_create_ret := None\<rparr>) = Some 1 \<and>
   sched_engine_create_ret (env_ok\<lparr>sched_engine_create_ret := None\<rparr>) = None \<and>
   (\<exists>w. mock_gem_device (env_ok\<lparr>sched_engine_create_ret := None\<rparr>) = Some (None, w) \<and>
      from_call (Alloc_workqueue (Some 1)) (trace w) =
          [Alloc_workqueue (Some 1),
           I915_sched_engine_create_cpu 3 (Some 1) Cpu_all_mask None,
           Destroy_workqueue (Some 1), Mock_uncore_uninit,
           Intel_gt_driver_late_release_all, Intel_memory_regions_driver_release,
           Drm_mode_config_cleanup, I915_params_free, Drm_dev_put, Devres_release_group,
           Kfree_pdev, Put_device])"
  using scheduler_creation[of "env_ok\<lparr>sched_engine_create_ret := None\<rparr>" 1]
  by (auto simp add: env_ok_def)

text \<open>
  C9. On every failing run of the constructor that had allocated the device structure,
  \<open>do_release\<close> is still false when the release callback fires from
  \<open>mock_destroy_device\<close>; the callback frees the configuration copy and nothing else, and
  no resource is released twice in the whole run.
\<close>

theorem no_double_release_on_failure:
  assumes "mock_gem_device e = Some (None, w)"
    and "kzalloc_ret e" "devres_open_group_ret e" "devm_drm_dev_alloc_err e = None"
  shows "\<not> do_release (i915 w) \<and>
     from_call Drm_mode_config_cleanup (trace w) =
       [Drm_mode_config_cleanup, I915_params_free, Drm_dev_put, Devres_release_group,
        Kfree_pdev, Put_device] \<and>
     distinct (rel_order (trace w))"
  using assms
  by (auto simp add: run_simps from_call_def rel_order_def releases_def map_filter_simps
      split: if_splits)

theorem no_double_release_on_failure_witness:
  "kzalloc_ret (env_ok\<lparr>mock_engine_init_ret := - 12\<rparr>) \<and>
   devres_open_group_ret (env_ok\<lparr>mock_engine_init_ret := - 12\<rparr>) \<and>
   devm_drm_dev_alloc_err (env_ok\<lparr>mock_engine_init_ret := - 12\<rparr>) = None \<and>
   (\<exists>w. mock_gem_device (env_ok\<lparr>mock_engine_init_ret := - 12\<rparr>) = Some (None, w) \<and>
      \<not> do_release (i915 w) \<and>
      from_call Drm_mode_config_cleanup (trace w) =
        [Drm_mode_config_cleanup, I915_params_free, Drm_dev_put, Devres_release_group,
         Kfree_pdev, Put_device] \<and>
      distinct (rel_order (trace w)))"
proof -
  have "\<exists>w. mock_gem_device (env_ok\<lparr>mock_engine_init_ret := - 12\<rparr>) = Some (None, w)"
    by (simp add: env_ok_def run_simps)
  then obtain w where
    w: "mock_gem_device (env_ok\<lparr>mock_engine_init_ret := - 12\<rparr>) = Some (None, w)"
    by blast
  have h: "kzalloc_ret (env_ok\<lparr>mock_engine_init_ret := - 12\<rparr>)"
    "devres_open_group_ret (env_ok\<lparr>mock_engine_init_ret := - 12\<rparr>)"
    "devm_drm_dev_alloc_err (env_ok\<lparr>mock_engine_init_ret := - 12\<rparr>) = None"
    by (simp_all add: env_ok_def)
  from no_double_release_on_failure[OF w h] w h show ?thesis
    by blast
qed

section \<open>Properties of destruction\<close>

text \<open>
  C4. In the release callback of a device marked \<open>do_release\<close>, the drain loop has returned
  before the engine is removed or the translation layer is torn down: up to the return of
  \<open>mock_device_flush\<close> the callback logs no such call, and both come after it. The loop
  returns only with retirement reporting no outstanding work, in its last answer.
\<close>

theorem drain_before_free:
  assumes "do_release (i915 w)" "mock_device_release e w = Some w'"
  shows "\<exists>w1 post. mock_device_flush e (call I915_debugger_fini w) = Some w1 \<and>
      flushed e (call I915_debugger_fini w) w1 \<and>
      last (trace w1) = Intel_gt_retire_requests_timeout True \<and>
      trace w' = trace w1 @ post \<and>
      (\<forall>c \<in> set (drop (length (trace w)) (trace w1)). \<not> engine_or_ggtt_release c) \<and>
      Intel_gt_driver_remove \<in> set post \<and> Mock_fini_ggtt (gt_ggtt (i915 w)) \<in> set post"
proof -
  let ?w0 = "call I915_debugger_fini w"
  from assms obtain w1 where f: "mock_device_flush e ?w0 = Some w1"
    by (auto simp add: mock_device_release_def split: bind_splits)
  from flush_partial[OF f] have fl: "flushed e ?w0 w1" .
  then obtain n where w1: "w1 = ?w0\<lparr>retire_calls := retire_calls ?w0 + n + 1,
       trace := trace ?w0 @ drain_trace e (i915 ?w0) n\<rparr>"
    unfolding flushed_def by blast
  have l: "last (trace w1) = Intel_gt_retire_requests_timeout True"
    by (simp add: w1 drain_trace_def)
  have nr: "\<forall>c \<in> set (drop (length (trace w)) (trace w1)). \<not> engine_or_ggtt_release c"
    by (auto simp add: w1 drain_trace_def engine_or_ggtt_release_def)
  have tr: "trace w' = trace w1 @
      [Intel_gt_driver_remove, I915_gem_drain_workqueue, I915_gem_drain_freed_objects,
       Mock_fini_ggtt (gt_ggtt (i915 w)), I915_sched_engine_put (sched (i915 w)),
       Intel_gt_driver_late_release_all, Intel_memory_regions_driver_release,
       Destroy_workqueue (wq (i915 w)), Drm_mode_config_cleanup, Mock_uncore_uninit,
       I915_params_free]"
    using assms f by (auto simp add: mock_device_release_def w1)
  show ?thesis
    using f fl l nr tr by simp
qed

theorem drain_before_free_witness:
  "\<exists>w w'. mock_gem_device env_ok = Some (Some (i915 w), w) \<and> do_release (i915 w) \<and>
     mock_device_release env_ok w = Some w' \<and>
     (\<exists>w1 post. mock_device_flush env_ok (call I915_debugger_fini w) = Some w1 \<and>
      flushed env_ok (call I915_debugger_fini w) w1 \<and>
      last (trace w1) = Intel_gt_retire_requests_timeout True \<and>
      trace w' = trace w1 @ post \<and>
      list_all (\<lambda>c. \<not> engine_or_ggtt_release c) (drop (length (trace w)) (trace w1)) \<and>
      Intel_gt_driver_remove \<in> set post \<and> Mock_fini_ggtt (Some 3) \<in> set post)"
proof -
  from construct_ok[OF env_ok_facts(1)] obtain w where
    w: "mock_gem_device env_ok = Some (Some (i915 w), w)" "do_release (i915 w)"
      "retire_calls w = 0" "gt_ggtt (i915 w) = Some 3"
    by (auto simp add: env_ok_facts)
  have "\<forall>j<1. \<not> retire_ret env_ok (retire_calls w + j)"
    "retire_ret env_ok (retire_calls w + 1)"
    using env_ok_facts(2,3) w(3) by simp_all
  from release_marked[OF w(2) this] obtain w' where
    w': "mock_device_release env_ok w = Some w'"
    by blast
  from drain_before_free[OF w(2) w'] w w' show ?thesis
    by (auto simp add: list_all_iff)
qed

text \<open>
  C5. Destroying a fully constructed device runs the teardown steps in this order:
  debugger fini, drain, engine and tile removal, the two deferred-object drains,
  translation-layer teardown, scheduler release, late release and memory-region release,
  workqueue destruction, mode-config teardown, register-shim uninit and the free of the
  configuration copy, all inside the release callback that the release of the devres
  scope fires; then the DRM device and the devres scope are gone, and last the identity
  reference is dropped, which frees the identity. No resource is left acquired. The drain
  returns when retirement reports no outstanding work, here at its \<open>n\<close>-th answer.
\<close>

theorem teardown_order:
  assumes "all_succeed e" and "\<forall>j<n. \<not> retire_ret e j" "retire_ret e n"
  shows "\<exists>w w'. construct_then_destroy e = Some (w, w') \<and>
     teardown_trace (w, w') =
       [I915_debugger_fini] @ drain_trace e (i915 w) n @
       [Intel_gt_driver_remove, I915_gem_drain_workqueue, I915_gem_drain_freed_objects,
        Mock_fini_ggtt (drmm_kzalloc_ret e), I915_sched_engine_put (sched_engine_create_ret e),
        Intel_gt_driver_late_release_all, Intel_memory_regions_driver_release,
        Destroy_workqueue (alloc_workqueue_ret e), Drm_mode_config_cleanup, Mock_uncore_uninit,
        I915_params_free, Drm_dev_put, Devres_release_group, Kfree_pdev, Put_device] \<and>
     outstanding (trace w') = []"
  using construct_then_destroy_exact[OF assms] by blast

theorem teardown_order_witness:
  "all_succeed env_ok \<and> \<not> retire_ret env_ok 0 \<and> retire_ret env_ok 1 \<and>
   (\<exists>w w'. construct_then_destroy env_ok = Some (w, w') \<and>
     teardown_trace (w, w') =
       [I915_debugger_fini] @ drain_trace env_ok (i915 w) 1 @
       [Intel_gt_driver_remove, I915_gem_drain_workqueue, I915_gem_drain_freed_objects,
        Mock_fini_ggtt (Some 3), I915_sched_engine_put (Some 2),
        Intel_gt_driver_late_release_all, Intel_memory_regions_driver_release,
        Destroy_workqueue (Some 1), Drm_mode_config_cleanup, Mock_uncore_uninit,
        I915_params_free, Drm_dev_put, Devres_release_group, Kfree_pdev, Put_device] \<and>
     outstanding (trace w') = [])"
proof -
  have idle: "\<forall>j<1. \<not> retire_ret env_ok j"
    using env_ok_facts(2) by simp
  from teardown_order[OF env_ok_facts(1) idle env_ok_facts(3)]
  have "\<exists>w w'. construct_then_destroy env_ok = Some (w, w') \<and>
     teardown_trace (w, w') =
       [I915_debugger_fini] @ drain_trace env_ok (i915 w) 1 @
       [Intel_gt_driver_remove, I915_gem_drain_workqueue, I915_gem_drain_freed_objects,
        Mock_fini_ggtt (Some 3), I915_sched_engine_put (Some 2),
        Intel_gt_driver_late_release_all, Intel_memory_regions_driver_release,
        Destroy_workqueue (Some 1), Drm_mode_config_cleanup, Mock_uncore_uninit,
        I915_params_free, Drm_dev_put, Devres_release_group, Kfree_pdev, Put_device] \<and>
     outstanding (trace w') = []"
    by (simp only: env_ok_facts(4-7))
  with env_ok_facts(1,2,3) show ?thesis
    by blast
qed

text \<open>
  The order of the specification's steps 11 and 12 does not hold: in the run of the
  script \<open>env_ok\<close> the configuration copy is freed before the devres scope is released and
  before the identity reference is dropped, not after.
\<close>

theorem config_copy_not_freed_last:
  "map_option config_copy_freed_last (teardown_of env_ok) = Some False"
  by (simp add: env_ok_teardown config_copy_freed_last_def before_def from_call_def)

text \<open>
  C6. On a device whose \<open>do_release\<close> is false the release callback skips the whole
  teardown and only frees the configuration copy: it logs that one call, and every other
  field of the device and of the world is as before.
\<close>

theorem release_not_marked_frame:
  assumes "\<not> do_release (i915 w)"
  shows "mock_device_release e w =
           Some (w\<lparr>i915 := (i915 w)\<lparr>params_held := False\<rparr>,
                   trace := trace w @ [I915_params_free]\<rparr>)"
  using assms by (simp add: mock_device_release_def i915_params_free_def call_def upd_def)

text \<open>
  At a device built by the script \<open>env_ok\<close> whose \<open>do_release\<close> has then been cleared: the
  configuration copy is held before the callback and freed after it, the one call logged
  is the free, and the handles, the cache table, the reference count and the rest of the
  log are as construction left them.
\<close>

theorem release_not_marked_frame_witness:
  "\<exists>w v v'. mock_gem_device env_ok = Some (Some (i915 w), w) \<and>
     v = upd (\<lambda>d. d\<lparr>do_release := False\<rparr>) w \<and>
     \<not> do_release (i915 v) \<and> params_held (i915 v) \<and>
     mock_device_release env_ok v = Some v' \<and>
     v' = v\<lparr>i915 := (i915 v)\<lparr>params_held := False\<rparr>, trace := trace v @ [I915_params_free]\<rparr> \<and>
     \<not> params_held (i915 v') \<and> \<not> do_release (i915 v') \<and>
     wq (i915 v') = Some 1 \<and> sched (i915 v') = Some 2 \<and> gt_ggtt (i915 v') = Some 3 \<and>
     gt_engine (i915 v') RCS0 = Some 4 \<and> cachelevel_to_pat (i915 v') = [0, 1, 2, 3] \<and>
     gt_name (i915 v') = ''Mock GT'' \<and> pdev_kref v' = 1 \<and> drm_dev_live v' \<and>
     length (trace v) = 32 \<and> trace v' = trace w @ [I915_params_free]"
proof -
  from construct_env_ok obtain w where
    w: "mock_gem_device env_ok = Some (Some (i915 w), w)" "params_held (i915 w)"
      "wq (i915 w) = Some 1" "sched (i915 w) = Some 2" "gt_ggtt (i915 w) = Some 3"
      "gt_engine (i915 w) RCS0 = Some 4" "cachelevel_to_pat (i915 w) = [0, 1, 2, 3]"
      "gt_name (i915 w) = ''Mock GT''" "pdev_kref w = 1" "drm_dev_live w"
      "length (trace w) = 32"
    by blast
  let ?v = "upd (\<lambda>d. d\<lparr>do_release := False\<rparr>) w"
  have n: "\<not> do_release (i915 ?v)"
    by simp
  from release_not_marked_frame[OF n, of env_ok] w show ?thesis
    by simp
qed

section \<open>The copy-on-write test\<close>

text \<open>
  C10. For every flags value, \<open>is_cow_mapping\<close> is true exactly when the \<^verbatim>\<open>VM_MAYWRITE\<close> bit is
  set and the \<^verbatim>\<open>VM_SHARED\<close> bit is clear. The two masks are single bits at distinct
  positions \<open>m\<close> and \<open>s\<close> of the 64-bit flags word.
\<close>

theorem is_cow_mapping_iff:
  assumes "s < 64" "m < 64" "s \<noteq> m"
  shows "is_cow_mapping (push_bit s 1) (push_bit m 1) flags \<longleftrightarrow> bit flags m \<and> \<not> bit flags s"
proof
  assume "is_cow_mapping (push_bit s 1) (push_bit m 1) flags"
  then have e: "flags AND (push_bit s 1 OR push_bit m 1) = push_bit m 1"
    by (simp add: is_cow_mapping_def)
  have "bit (flags AND (push_bit s 1 OR push_bit m 1)) m = bit (push_bit m 1 :: 64 word) m"
    using e by simp
  then have 1: "bit flags m"
    using assms by (simp add: bit_simps)
  have "bit (flags AND (push_bit s 1 OR push_bit m 1)) s = bit (push_bit m 1 :: 64 word) s"
    using e by simp
  then have 2: "\<not> bit flags s"
    using assms by (auto simp add: bit_simps)
  from 1 2 show "bit flags m \<and> \<not> bit flags s"
    by simp
next
  assume a: "bit flags m \<and> \<not> bit flags s"
  have "flags AND (push_bit s 1 OR push_bit m 1) = push_bit m 1"
    by (rule bit_word_eqI) (use a assms in \<open>auto simp add: bit_simps\<close>)
  then show "is_cow_mapping (push_bit s 1) (push_bit m 1) flags"
    by (simp add: is_cow_mapping_def)
qed

text \<open>With the kernel's masks, \<^verbatim>\<open>VM_SHARED = 0x8\<close> and \<^verbatim>\<open>VM_MAYWRITE = 0x20\<close>.\<close>

theorem is_cow_mapping_iff_witness:
  "(3::nat) < 64 \<and> (5::nat) < 64 \<and> (3::nat) \<noteq> 5 \<and>
   is_cow_mapping 0x8 0x20 0x20 \<and> \<not> is_cow_mapping 0x8 0x20 0x28 \<and>
   \<not> is_cow_mapping 0x8 0x20 0x0"
  using is_cow_mapping_iff[of 3 5 "0x20"] is_cow_mapping_iff[of 3 5 "0x28"]
    is_cow_mapping_iff[of 3 5 "0x0"]
  by (simp add: bit_simps)

end
